theory Spec2Isabelle
  imports Main "HOL-Library.List_Lexorder"
begin

section \<open>Strings\<close>

text \<open>
  A Python \<open>str\<close> is a sequence of Unicode code points, so a string is a list of
  code points here; \<open>lit\<close> turns an ASCII literal into one.  The ASCII part of
  \<open>str.isalnum\<close> and \<open>str.isspace\<close> is written out; what they answer on code
  points from 128 on comes from the interpreter's Unicode tables and is a
  parameter (\<open>unicode\<close>).
\<close>

type_synonym pystr = "nat list"

definition lit :: "string \<Rightarrow> pystr" where
  "lit s = map of_char s"

record unicode =
  alnum_ext :: "nat \<Rightarrow> bool"
  space_ext :: "nat \<Rightarrow> bool"

definition isalnum :: "unicode \<Rightarrow> nat \<Rightarrow> bool" where
  "isalnum U c =
     (if c < 128
      then (48 \<le> c \<and> c \<le> 57) \<or> (65 \<le> c \<and> c \<le> 90) \<or> (97 \<le> c \<and> c \<le> 122)
      else alnum_ext U c)"

definition isspace :: "unicode \<Rightarrow> nat \<Rightarrow> bool" where
  "isspace U c =
     (if c < 128
      then (9 \<le> c \<and> c \<le> 13) \<or> (28 \<le> c \<and> c \<le> 32)
      else space_ext U c)"

text \<open>\<open>s.strip()\<close>: leading and trailing whitespace removed.\<close>

definition strip :: "unicode \<Rightarrow> pystr \<Rightarrow> pystr" where
  "strip U s = rev (dropWhile (isspace U) (rev (dropWhile (isspace U) s)))"

text \<open>\<open>s.replace(a, b)\<close> for one-character \<open>a\<close> and \<open>b\<close>.\<close>

definition replace_char :: "nat \<Rightarrow> nat \<Rightarrow> pystr \<Rightarrow> pystr" where
  "replace_char a b s = map (\<lambda>c. if c = a then b else c) s"

definition startswith :: "pystr \<Rightarrow> pystr \<Rightarrow> bool" where
  "startswith s p = (take (length p) s = p)"

definition endswith :: "pystr \<Rightarrow> pystr \<Rightarrow> bool" where
  "endswith s p = (length p \<le> length s \<and> drop (length s - length p) s = p)"

text \<open>\<open>str(n)\<close> for a non-negative integer: its decimal digits.\<close>

function str_nat :: "nat \<Rightarrow> pystr" where
  "str_nat n = (if n < 10 then [48 + n] else str_nat (n div 10) @ [48 + n mod 10])"
  by pat_completeness auto
termination
  by (relation "measure id") auto

declare str_nat.simps [simp del]

section \<open>\<open>sanitize_filename\<close>\<close>

definition sanitize_filename :: "unicode \<Rightarrow> pystr \<Rightarrow> pystr" where
  "sanitize_filename U name =
     (let safe_name = replace_char 32 95 name;
          safe_name = filter (\<lambda>c. isalnum U c \<or> c = 95 \<or> c = 45) safe_name
      in safe_name)"

section \<open>Paths (\<open>os.path\<close> on POSIX)\<close>

text \<open>
  \<open>basename\<close> is what follows the last slash (code point 47).  \<open>splitext\<close> cuts
  at the last dot (46) of the basename, unless only dots precede it there.
  \<open>join\<close> is \<open>os.path.join\<close> for two components.
\<close>

definition basename :: "pystr \<Rightarrow> pystr" where
  "basename p = rev (takeWhile (\<lambda>c. c \<noteq> 47) (rev p))"

definition splitext :: "pystr \<Rightarrow> pystr \<times> pystr" where
  "splitext p =
     (let b = basename p;
          ext = rev (takeWhile (\<lambda>c. c \<noteq> 46) (rev b));
          cut = length p - length ext - 1
      in if List.member b 46 \<and> list_ex (\<lambda>c. c \<noteq> 46) (take (length b - length ext - 1) b)
         then (take cut p, drop cut p)
         else (p, []))"

definition join :: "pystr \<Rightarrow> pystr \<Rightarrow> pystr" where
  "join a b =
     (if startswith b [47] then b
      else if a = [] \<or> endswith a [47] then a @ b
      else a @ [47] @ b)"

section \<open>Images\<close>

text \<open>
  An image is its rows of pixels, top row first; the pixel type is left open.
  \<open>crop\<close> is \<open>Image.crop((left, upper, right, lower))\<close>: the result has
  \<open>right - left\<close> columns and \<open>lower - upper\<close> rows, and a position outside the
  source holds the library's fill value, a parameter.
\<close>

type_synonym 'p image = "'p list list"

definition image_size :: "'p image \<Rightarrow> nat \<times> nat" where
  "image_size img = ((case img of [] \<Rightarrow> 0 | r # _ \<Rightarrow> length r), length img)"

definition getpixel :: "'p \<Rightarrow> 'p image \<Rightarrow> nat \<Rightarrow> nat \<Rightarrow> 'p" where
  "getpixel fill img x y =
     (if y < length img \<and> x < length (img ! y) then img ! y ! x else fill)"

definition crop :: "'p \<Rightarrow> 'p image \<Rightarrow> nat \<times> nat \<times> nat \<times> nat \<Rightarrow> 'p image" where
  "crop fill img box =
     (case box of (left, upper, right, lower) \<Rightarrow>
        map (\<lambda>y. map (\<lambda>x. getpixel fill img x y) [left..<right]) [upper..<lower])"

section \<open>The world: files, standard output, external programs\<close>

text \<open>
  The file system maps a path, as the program spells it, to what is there.
  Distinct spellings are taken to name distinct files, and every file to be
  readable and writable; the failures modelled are those of the kind of node
  found.  \<open>listing\<close> is what \<open>os.listdir(".")\<close> returns; \<open>main\<close> reads it once,
  before anything is written.  \<open>stdout\<close> holds one entry per \<open>print\<close> call and
  \<open>saves\<close> one entry per \<open>Image.save\<close> call, both in program order.
\<close>

datatype 'p node = Directory | TextFile "pystr list" | ImageFile "'p image" | OtherFile

type_synonym 'p files = "pystr \<Rightarrow> 'p node option"

record 'p world =
  fs :: "'p files"
  listing :: "pystr list"
  stdout :: "pystr list"
  saves :: "(pystr \<times> 'p image) list"

datatype error =
    FileNotFoundError
  | IsADirectoryError
  | FileExistsError
  | UnidentifiedImageError
  | UnicodeDecodeError
  | CalledProcessError

text \<open>
  \<open>Inl (e, w)\<close>: the exception \<open>e\<close> propagates, the world being \<open>w\<close>;
  \<open>Inr\<close>: a normal return.
\<close>

type_synonym ('p, 'a) io = "(error \<times> 'p world) + 'a"

record 'p platform =
  ucd :: unicode
  crop_fill :: "'p"
  which :: "pystr \<Rightarrow> pystr option"
  run_process :: "pystr list \<Rightarrow> 'p files \<Rightarrow> (int \<times> 'p files) option"

text \<open>
  \<open>run_process argv files\<close> is the external program run on the files: \<open>None\<close>
  when the executable is not found, else its exit status and the files as it
  leaves them.
\<close>

definition print :: "pystr \<Rightarrow> 'p world \<Rightarrow> 'p world" where
  "print s w = w\<lparr>stdout := stdout w @ [s]\<rparr>"

text \<open>A Python \<open>for\<close> loop whose body may raise.\<close>

fun for_each :: "('a \<Rightarrow> 's \<Rightarrow> 'e + 's) \<Rightarrow> 'a list \<Rightarrow> 's \<Rightarrow> 'e + 's" where
  "for_each body [] s = Inr s"
| "for_each body (x # xs) s =
     (case body x s of Inl e \<Rightarrow> Inl e | Inr s' \<Rightarrow> for_each body xs s')"

definition image_open :: "pystr \<Rightarrow> 'p world \<Rightarrow> ('p, 'p image) io" where
  "image_open path w =
     (case fs w path of
        None \<Rightarrow> Inl (FileNotFoundError, w)
      | Some Directory \<Rightarrow> Inl (IsADirectoryError, w)
      | Some (ImageFile img) \<Rightarrow> Inr img
      | Some _ \<Rightarrow> Inl (UnidentifiedImageError, w))"

definition makedirs :: "pystr \<Rightarrow> 'p world \<Rightarrow> ('p, 'p world) io" where
  "makedirs path w =
     (if path = [] then Inl (FileNotFoundError, w)
      else case fs w path of
        None \<Rightarrow> Inr (w\<lparr>fs := (fs w)(path \<mapsto> Directory)\<rparr>)
      | Some Directory \<Rightarrow> Inr w
      | Some _ \<Rightarrow> Inl (FileExistsError, w))"

definition image_save :: "'p image \<Rightarrow> pystr \<Rightarrow> 'p world \<Rightarrow> ('p, 'p world) io" where
  "image_save img path w =
     (case fs w path of
        Some Directory \<Rightarrow> Inl (IsADirectoryError, w)
      | _ \<Rightarrow> Inr (w\<lparr>fs := (fs w)(path \<mapsto> ImageFile img),
                     saves := saves w @ [(path, img)]\<rparr>))"

section \<open>\<open>load_character_names\<close>\<close>

definition load_character_names ::
  "'p platform \<Rightarrow> pystr \<Rightarrow> 'p world \<Rightarrow> ('p, pystr list option \<times> 'p world) io" where
  "load_character_names E sheet_path w =
     (let base_name = fst (splitext sheet_path);
          names_file = base_name @ lit ''.txt''
      in case fs w names_file of
           None \<Rightarrow> Inr (None, w)
         | Some Directory \<Rightarrow> Inl (IsADirectoryError, w)
         | Some (TextFile lines) \<Rightarrow>
             (let names = [strip (ucd E) line. line \<leftarrow> lines, strip (ucd E) line \<noteq> []];
                  w = (if length names \<noteq> 20
                       then print (lit ''Names should be provided for all 20 characters (5 rows ''
                                     @ [215] @ lit '' 4 sprites)'')
                              (print (lit ''Warning: Expected 20 names in '' @ names_file
                                        @ lit '', found '' @ str_nat (length names)) w)
                       else w)
              in Inr (Some names, w))
         | Some _ \<Rightarrow> Inl (UnicodeDecodeError, w))"

section \<open>The optimizer\<close>

definition check_optipng_available :: "'p platform \<Rightarrow> bool" where
  "check_optipng_available E = (which E (lit ''optipng'') \<noteq> None)"

text \<open>\<open>subprocess.run(argv, check=True, capture_output=True)\<close>.\<close>

definition subprocess_run_check :: "'p platform \<Rightarrow> pystr list \<Rightarrow> 'p world \<Rightarrow> ('p, 'p world) io" where
  "subprocess_run_check E argv w =
     (case run_process E argv (fs w) of
        None \<Rightarrow> Inl (FileNotFoundError, w)
      | Some (status, files) \<Rightarrow>
          if status \<noteq> 0 then Inl (CalledProcessError, w\<lparr>fs := files\<rparr>)
          else Inr (w\<lparr>fs := files\<rparr>))"

definition optimize_png_with_optipng :: "'p platform \<Rightarrow> pystr \<Rightarrow> 'p world \<Rightarrow> ('p, 'p world) io" where
  "optimize_png_with_optipng E file_path w =
     (case subprocess_run_check E [lit ''optipng'', lit ''-o2'', lit ''-quiet'', file_path] w of
        Inl (CalledProcessError, w') \<Rightarrow> Inr w'
      | r \<Rightarrow> r)"

section \<open>\<open>extract_sprites_from_sheet\<close>\<close>

text \<open>
  The variables the two extraction loops update: the world, \<open>character_index\<close>
  and \<open>files_to_optimize\<close>.
\<close>

record 'p loop_state =
  the_world :: "'p world"
  character_index :: nat
  files_to_optimize :: "pystr list"

text \<open>
  The test \<open>character_names and character_index < len(character_names)\<close> and
  the name it selects (\<open>i\<close> is the value of \<open>character_index\<close>): \<open>None\<close> and
  the empty list are both falsy.
\<close>

definition name_at :: "pystr list option \<Rightarrow> nat \<Rightarrow> pystr option" where
  "name_at character_names i =
     (case character_names of
        None \<Rightarrow> None
      | Some names \<Rightarrow>
          if names \<noteq> [] \<and> i < length names
          then Some (names ! i) else None)"

definition sprite_positions :: "(nat \<times> nat \<times> pystr) list" where
  "sprite_positions = [(0, 0, lit ''1''), (16, 0, lit ''2''), (0, 16, lit ''3''), (16, 16, lit ''4'')]"

definition sprite_box :: "nat \<Rightarrow> nat \<Rightarrow> nat \<Rightarrow> nat \<times> nat \<times> nat \<times> nat" where
  "sprite_box row offset_x offset_y =
     (let base_y = row * 32;
          base_x = 0;
          x = base_x + offset_x;
          y = base_y + offset_y
      in (x, y, x + 16, y + 16))"

definition sprite_name ::
  "unicode \<Rightarrow> pystr \<Rightarrow> pystr list option \<Rightarrow> nat \<Rightarrow> pystr \<Rightarrow> nat \<Rightarrow> pystr" where
  "sprite_name U base_name character_names row sprite_num i =
     (case name_at character_names i of
        Some name \<Rightarrow> (let char_name = sanitize_filename U name in char_name @ lit ''face.png'')
      | None \<Rightarrow> base_name @ lit ''_row'' @ str_nat row @ lit ''_sprite'' @ sprite_num @ lit ''.png'')"

definition face_body ::
  "'p platform \<Rightarrow> 'p image \<Rightarrow> pystr \<Rightarrow> pystr list option \<Rightarrow> pystr \<Rightarrow> bool \<Rightarrow> nat \<Rightarrow>
   nat \<times> nat \<times> pystr \<Rightarrow> 'p loop_state \<Rightarrow> (error \<times> 'p world) + 'p loop_state" where
  "face_body E sheet base_name character_names output_dir use_optipng row pos st =
     (case pos of (offset_x, offset_y, sprite_num) \<Rightarrow>
        let sprite = crop (crop_fill E) sheet (sprite_box row offset_x offset_y);
            name = sprite_name (ucd E) base_name character_names row sprite_num (character_index st);
            sprite_path = join output_dir name
        in case image_save sprite sprite_path (the_world st) of
             Inl e \<Rightarrow> Inl e
           | Inr w \<Rightarrow>
               Inr \<lparr>the_world = print (lit ''  Saved: '' @ name) w,
                    character_index = character_index st + 1,
                    files_to_optimize =
                      (if use_optipng then files_to_optimize st @ [sprite_path]
                       else files_to_optimize st)\<rparr>)"

definition portrait_box :: "nat \<Rightarrow> nat \<Rightarrow> nat \<times> nat \<times> nat \<times> nat" where
  "portrait_box row col =
     (let x = col * 32;
          y = row * 32
      in (x, y, x + 32, y + 32))"

definition portrait_name ::
  "unicode \<Rightarrow> pystr \<Rightarrow> pystr list option \<Rightarrow> nat \<Rightarrow> nat \<Rightarrow> nat \<Rightarrow> pystr" where
  "portrait_name U base_name character_names row col i =
     (let sprite_index = (col - 1) + 1
      in case name_at character_names i of
           Some name \<Rightarrow> (let char_name = sanitize_filename U name in char_name @ lit ''.png'')
         | None \<Rightarrow> base_name @ lit ''_row'' @ str_nat row @ lit ''_sprite'' @ str_nat sprite_index
                     @ lit ''_portrait.png'')"

definition portrait_body ::
  "'p platform \<Rightarrow> 'p image \<Rightarrow> pystr \<Rightarrow> pystr list option \<Rightarrow> pystr \<Rightarrow> bool \<Rightarrow> nat \<Rightarrow>
   nat \<Rightarrow> 'p loop_state \<Rightarrow> (error \<times> 'p world) + 'p loop_state" where
  "portrait_body E sheet base_name character_names output_dir use_optipng row col st =
     (let portrait = crop (crop_fill E) sheet (portrait_box row col);
          name = portrait_name (ucd E) base_name character_names row col (character_index st);
          portrait_path = join output_dir name
      in case image_save portrait portrait_path (the_world st) of
           Inl e \<Rightarrow> Inl e
         | Inr w \<Rightarrow>
             Inr \<lparr>the_world = print (lit ''  Saved: '' @ name) w,
                  character_index = character_index st + 1,
                  files_to_optimize =
                    (if use_optipng then files_to_optimize st @ [portrait_path]
                     else files_to_optimize st)\<rparr>)"

text \<open>How an f-string shows the pair \<open>sheet.size\<close>.\<close>

definition str_size :: "nat \<times> nat \<Rightarrow> pystr" where
  "str_size s = lit ''('' @ str_nat (fst s) @ lit '', '' @ str_nat (snd s) @ lit '')''"

definition run_optipng :: "'p platform \<Rightarrow> bool \<Rightarrow> 'p loop_state \<Rightarrow> ('p, 'p world) io" where
  "run_optipng E use_optipng st =
     (if use_optipng \<and> files_to_optimize st \<noteq> [] then
        case for_each (optimize_png_with_optipng E) (files_to_optimize st)
               (print (lit ''Optimizing '' @ str_nat (length (files_to_optimize st))
                         @ lit '' files with optipng...'') (the_world st)) of
          Inl e \<Rightarrow> Inl e
        | Inr w \<Rightarrow> Inr (print (lit ''Optimization complete!'') w)
      else Inr (the_world st))"

definition report_size :: "'p image \<Rightarrow> 'p world \<Rightarrow> 'p world" where
  "report_size sheet w =
     (if image_size sheet \<noteq> (160, 160)
      then print (lit ''Warning: Expected 160x160 pixels, got '' @ str_size (image_size sheet)) w
      else w)"

text \<open>\<open>if character_names: ... else: ...\<close>, where \<open>None\<close> and \<open>[]\<close> are falsy.\<close>

definition report_names :: "pystr \<Rightarrow> pystr list option \<Rightarrow> 'p world \<Rightarrow> 'p world" where
  "report_names base_name character_names w =
     (let no_names = print (lit ''Using default naming (row/sprite numbers)'')
                       (print (lit ''No character names file found ('' @ base_name @ lit ''.txt)'') w)
      in case character_names of
           None \<Rightarrow> no_names
         | Some names \<Rightarrow>
             if names \<noteq> []
             then print (lit ''Loaded '' @ str_nat (length names)
                           @ lit '' character names from '' @ base_name @ lit ''.txt'') w
             else no_names)"

definition extract_faces ::
  "'p platform \<Rightarrow> 'p image \<Rightarrow> pystr \<Rightarrow> pystr list option \<Rightarrow> pystr \<Rightarrow> bool \<Rightarrow>
   'p loop_state \<Rightarrow> (error \<times> 'p world) + 'p loop_state" where
  "extract_faces E sheet base_name character_names output_dir use_optipng =
     for_each
       (\<lambda>row. for_each
          (face_body E sheet base_name character_names output_dir use_optipng row)
          sprite_positions)
       [0..<5]"

definition extract_portraits ::
  "'p platform \<Rightarrow> 'p image \<Rightarrow> pystr \<Rightarrow> pystr list option \<Rightarrow> pystr \<Rightarrow> bool \<Rightarrow>
   'p loop_state \<Rightarrow> (error \<times> 'p world) + 'p loop_state" where
  "extract_portraits E sheet base_name character_names output_dir use_optipng =
     for_each
       (\<lambda>row. for_each
          (portrait_body E sheet base_name character_names output_dir use_optipng row)
          [1..<5])
       [0..<5]"

definition extract_sprites_from_sheet ::
  "'p platform \<Rightarrow> pystr \<Rightarrow> pystr \<Rightarrow> bool \<Rightarrow> 'p world \<Rightarrow> ('p, 'p world) io" where
  "extract_sprites_from_sheet E sheet_path output_dir use_optipng w =
     (case image_open sheet_path w of
        Inl e \<Rightarrow> Inl e
      | Inr sheet \<Rightarrow>
     let w = report_size sheet w;
         base_name = fst (splitext (basename sheet_path))
     in case load_character_names E sheet_path w of
          Inl e \<Rightarrow> Inl e
        | Inr (character_names, w) \<Rightarrow>
     let w = report_names base_name character_names w
     in case makedirs output_dir w of
          Inl e \<Rightarrow> Inl e
        | Inr w \<Rightarrow>
     let w = print (lit ''Processing '' @ sheet_path @ lit ''...'') w;
         w = print (lit ''Extracting 16x16 sprites from first column...'') w
     in case extract_faces E sheet base_name character_names output_dir use_optipng
               \<lparr>the_world = w, character_index = 0, files_to_optimize = []\<rparr> of
          Inl e \<Rightarrow> Inl e
        | Inr st \<Rightarrow>
     let w = print (lit ''Extracting 32x32 portraits from remaining columns...'') (the_world st)
     in case extract_portraits E sheet base_name character_names output_dir use_optipng
               \<lparr>the_world = w, character_index = 0, files_to_optimize = files_to_optimize st\<rparr> of
          Inl e \<Rightarrow> Inl e
        | Inr st \<Rightarrow>
     case run_optipng E use_optipng st of
       Inl e \<Rightarrow> Inl e
     | Inr w \<Rightarrow> Inr (print (lit ''Extraction complete for '' @ sheet_path @ lit ''!'') w))"

section \<open>\<open>main\<close>\<close>

definition is_sheet_name :: "pystr \<Rightarrow> bool" where
  "is_sheet_name f =
     (startswith f (lit ''npc-sprites-'') \<and>
      (endswith f (lit ''.png'') \<or> endswith f (lit ''.webp'') \<or> endswith f (lit ''.jpg'')))"

definition report_optipng :: "bool \<Rightarrow> 'p world \<Rightarrow> 'p world" where
  "report_optipng use_optipng w =
     (if use_optipng
      then print ([10003] @ lit '' optipng detected - will use for additional optimization'') w
      else print (lit ''    Windows: choco install optipng  (or download from http://optipng.sourceforge.net/)'')
          (print (lit ''    Linux:   apt-get install optipng  (or yum/pacman)'')
          (print (lit ''    macOS:   brew install optipng'')
          (print (lit ''  Install optipng for better compression:'')
          (print ([9888] @ lit '' optipng not found - using basic PNG optimization only'') w)))))"

definition main :: "'p platform \<Rightarrow> pystr list \<Rightarrow> 'p world \<Rightarrow> ('p, 'p world) io" where
  "main E argv w =
     (let output_dir = lit ''extracted_sprites'';
          sprite_sheets = filter is_sheet_name (listing w)
      in if sprite_sheets = [] then
           Inr (print (lit ''Usage: python extract_sprites.py [output_directory]'')
                 (print (lit ''No sprite sheets found matching pattern '' @ [39]
                           @ lit ''npc-sprites-*'' @ [39]) w))
         else
           let output_dir = (if length argv > 1 then argv ! 1 else output_dir);
               use_optipng = check_optipng_available E;
               w = report_optipng use_optipng w;
               w = print (lit ''Found '' @ str_nat (length sprite_sheets) @ lit '' sprite sheet(s)'') w;
               w = print (lit ''Output directory: '' @ output_dir @ [10]) w
           in case for_each
                     (\<lambda>sheet_path w.
                        case extract_sprites_from_sheet E sheet_path output_dir use_optipng w of
                          Inl e \<Rightarrow> Inl e
                        | Inr w \<Rightarrow> Inr (print [] w))
                     (sort sprite_sheets) w of
                Inl e \<Rightarrow> Inl e
              | Inr w \<Rightarrow>
                  Inr (print (lit ''All done! Extracted sprites saved to '' @ [39] @ output_dir
                                @ [47, 39] @ lit '' directory'') w))"

text \<open>The save calls made between two worlds of one run.\<close>

definition written :: "'p world \<Rightarrow> 'p world \<Rightarrow> (pystr \<times> 'p image) list" where
  "written w w' = drop (length (saves w)) (saves w')"

section \<open>What a run reads and writes\<close>

text \<open>
  The names a run works with: the non-empty stripped lines of the sidecar file,
  when it is a text file.
\<close>

definition sidecar_names :: "'p platform \<Rightarrow> pystr \<Rightarrow> 'p world \<Rightarrow> pystr list option" where
  "sidecar_names E sheet_path w =
     (case fs w (fst (splitext sheet_path) @ lit ''.txt'') of
        Some (TextFile lines) \<Rightarrow> Some (filter (\<lambda>s. s \<noteq> []) (map (strip (ucd E)) lines))
      | _ \<Rightarrow> None)"

text \<open>
  The \<open>n\<close>-th save of the face loop and of the portrait loop, \<open>n\<close> counting the
  iterations from 0: four per row.
\<close>

definition face_entry ::
  "'p platform \<Rightarrow> 'p image \<Rightarrow> pystr \<Rightarrow> pystr list option \<Rightarrow> pystr \<Rightarrow> nat \<Rightarrow> pystr \<times> 'p image" where
  "face_entry E sheet base_name names output_dir n =
     (case sprite_positions ! (n mod 4) of (offset_x, offset_y, sprite_num) \<Rightarrow>
        (join output_dir (sprite_name (ucd E) base_name names (n div 4) sprite_num n),
         crop (crop_fill E) sheet (sprite_box (n div 4) offset_x offset_y)))"

definition portrait_entry ::
  "'p platform \<Rightarrow> 'p image \<Rightarrow> pystr \<Rightarrow> pystr list option \<Rightarrow> pystr \<Rightarrow> nat \<Rightarrow> pystr \<times> 'p image" where
  "portrait_entry E sheet base_name names output_dir n =
     (join output_dir (portrait_name (ucd E) base_name names (n div 4) (n mod 4 + 1) n),
      crop (crop_fill E) sheet (portrait_box (n div 4) (n mod 4 + 1)))"

text \<open>
  The files after a list of saves: a path holds the image saved to it last,
  any other path what it held before.
\<close>

definition after_saves :: "'p files \<Rightarrow> (pystr \<times> 'p image) list \<Rightarrow> 'p files" where
  "after_saves files new =
     (\<lambda>path. case map_of (rev new) path of
                Some img \<Rightarrow> Some (ImageFile img)
              | None \<Rightarrow> files path)"

section \<open>Properties of \<open>sanitize_filename\<close>\<close>

lemma isalnum_space: "\<not> isalnum U 32"
  by (simp add: isalnum_def)

lemma sanitize_filename_filter_map:
  "sanitize_filename U name =
     filter (\<lambda>c. isalnum U c \<or> c = 95 \<or> c = 45) (map (\<lambda>c. if c = 32 then 95 else c) name)"
  by (simp add: sanitize_filename_def replace_char_def)

lemma sanitize_filename_kept:
  "list_all (\<lambda>c. isalnum U c \<or> c = 95 \<or> c = 45) (sanitize_filename U name)"
  by (simp add: sanitize_filename_filter_map list_all_iff)

lemma sanitize_filename_fixed:
  "list_all (\<lambda>c. isalnum U c \<or> c = 95 \<or> c = 45) t \<Longrightarrow> sanitize_filename U t = t"
proof (induction t)
  case Nil
  show ?case by (simp add: sanitize_filename_filter_map)
next
  case (Cons c t)
  from Cons.prems have c: "isalnum U c \<or> c = 95 \<or> c = 45"
    and t: "list_all (\<lambda>c. isalnum U c \<or> c = 95 \<or> c = 45) t"
    by simp_all
  from c have "c \<noteq> 32" using isalnum_space [of U] by auto
  with c Cons.IH [OF t] show ?case
    by (simp add: sanitize_filename_filter_map)
qed

text \<open>
  C4.  \<open>sanitize_filename\<close> turns every space (code point 32) into an
  underscore (95) and then keeps exactly the characters that are alphanumeric,
  an underscore or a hyphen (45), in their order; on \<open>Bob O'Brien (2)\<close> it
  gives \<open>Bob_OBrien_2\<close>.
\<close>

theorem sanitize_filename_replaces_then_drops:
  "sanitize_filename U name =
     filter (\<lambda>c. isalnum U c \<or> c = of_char (CHR ''_'') \<or> c = of_char (CHR ''-''))
       (map (\<lambda>c. if c = of_char (CHR '' '') then of_char (CHR ''_'') else c) name)
   \<and> sanitize_filename U (lit ''Bob O'Brien (2)'') = lit ''Bob_OBrien_2''"
proof -
  have chars: "of_char (CHR ''_'') = (95::nat)" "of_char (CHR ''-'') = (45::nat)"
    "of_char (CHR '' '') = (32::nat)"
    by simp_all
  have example: "sanitize_filename U (lit ''Bob O'Brien (2)'') = lit ''Bob_OBrien_2''"
    by (simp add: sanitize_filename_filter_map lit_def isalnum_def)
  show ?thesis
    unfolding chars using sanitize_filename_filter_map [of U name] example by simp
qed

theorem sanitize_filename_replaces_then_drops_witness:
  "sanitize_filename \<lparr>alnum_ext = (\<lambda>c. c = 233), space_ext = (\<lambda>c. False)\<rparr>
     (lit ''Jos'' @ [233] @ lit '' (a-b)'') = lit ''Jos'' @ [233] @ lit ''_a-b''"
  using sanitize_filename_replaces_then_drops
    [of "\<lparr>alnum_ext = (\<lambda>c. c = 233), space_ext = (\<lambda>c. False)\<rparr>" "lit ''Jos'' @ [233] @ lit '' (a-b)''"]
  by (simp add: lit_def isalnum_def)

text \<open>
  C10.  \<open>sanitize_filename\<close> is idempotent: every character of its output is
  alphanumeric, an underscore or a hyphen, and a string of such characters is
  returned as it is.
\<close>

theorem sanitize_filename_idempotent:
  "sanitize_filename U (sanitize_filename U s) = sanitize_filename U s
   \<and> list_all (\<lambda>c. isalnum U c \<or> c = 95 \<or> c = 45) (sanitize_filename U s)
   \<and> (list_all (\<lambda>c. isalnum U c \<or> c = 95 \<or> c = 45) t \<longrightarrow> sanitize_filename U t = t)"
  using sanitize_filename_fixed [of U] sanitize_filename_kept [of U s] by blast

theorem sanitize_filename_idempotent_witness:
  "list_all (\<lambda>c. isalnum \<lparr>alnum_ext = (\<lambda>c. False), space_ext = (\<lambda>c. False)\<rparr> c \<or> c = 95 \<or> c = 45)
     (lit ''a_b-9'')
   \<and> sanitize_filename \<lparr>alnum_ext = (\<lambda>c. False), space_ext = (\<lambda>c. False)\<rparr> (lit ''a_b-9'') = lit ''a_b-9''
   \<and> sanitize_filename \<lparr>alnum_ext = (\<lambda>c. False), space_ext = (\<lambda>c. False)\<rparr>
       (sanitize_filename \<lparr>alnum_ext = (\<lambda>c. False), space_ext = (\<lambda>c. False)\<rparr> (lit ''a b!'')) = lit ''a_b''"
  using sanitize_filename_idempotent
    [of "\<lparr>alnum_ext = (\<lambda>c. False), space_ext = (\<lambda>c. False)\<rparr>" "lit ''a b!''" "lit ''a_b-9''"]
  by (simp add: lit_def isalnum_def sanitize_filename_filter_map)

end
